theory Spec2Isabelle
  imports Main "HOL-Library.AList" "HOL-Library.Sublist"
begin

section \<open>JavaScript values and exceptions\<close>

text \<open>
  The settings class of \<^verbatim>\<open>src/client/common/configSettings.ts\<close> reads raw
  configuration values whose run-time type is not checked: a field declared
  \<^verbatim>\<open>string[]\<close> can hold whatever the configuration store returned. Raw and
  stored values are therefore JavaScript values. Numbers only matter here through
  their truthiness, so they are integers.
\<close>

datatype jsval =
    JUndefined
  | JNull
  | JBool bool
  | JNum int
  | JStr string
  | JArr "jsval list"
  | JObj "(string \<times> jsval) list"

datatype exn = TypeError string | Error string

text \<open>Truthiness, as \<^verbatim>\<open>!x\<close>, \<^verbatim>\<open>x && y\<close> and \<^verbatim>\<open>x || y\<close> read it.\<close>

fun truthy :: "jsval \<Rightarrow> bool" where
  "truthy JUndefined = False"
| "truthy JNull = False"
| "truthy (JBool b) = b"
| "truthy (JNum n) = (n \<noteq> 0)"
| "truthy (JStr s) = (s \<noteq> [])"
| "truthy (JArr xs) = True"
| "truthy (JObj kvs) = True"

text \<open>\<^verbatim>\<open>Array.isArray(x)\<close>.\<close>

fun isArray :: "jsval \<Rightarrow> bool" where
  "isArray (JArr xs) = True"
| "isArray v = False"

text \<open>
  \<^verbatim>\<open>a === b\<close>. Primitives compare by value. Arrays and objects compare by
  reference, and every array or object that reaches a comparison in this file was
  built by the variable resolver just before, so it is a new reference. (In the
  setters the answer changes nothing for such a value: \<^verbatim>\<open>untildify\<close> throws
  on it, and the field holds the value afterwards either way.)
\<close>

fun strictEquals :: "jsval \<Rightarrow> jsval \<Rightarrow> bool" where
  "strictEquals (JArr xs) v = False"
| "strictEquals (JObj kvs) v = False"
| "strictEquals u v = (u = v)"

section \<open>The platform the module runs on\<close>

datatype OSType = Unknown | Windows | OSX | Linux

datatype Uri = Uri (scheme: string) (fsPath: string)

record WorkspaceFolder =
  uri :: Uri
  name :: string

text \<open>
  \<^verbatim>\<open>IWorkspaceService\<close>, as far as the class uses it. A value of this record is
  what the service reports at the moment it is asked. \<^verbatim>\<open>getConfiguration\<close> is
  specialised to the section \<^verbatim>\<open>'python'\<close>; a configuration is its
  \<^verbatim>\<open>get(key)\<close>, which yields \<^verbatim>\<open>undefined\<close> for a key that is not set.
\<close>

type_synonym WorkspaceConfiguration = "string \<Rightarrow> jsval"

record IWorkspaceService =
  getWorkspaceFolder :: "Uri \<Rightarrow> WorkspaceFolder option"
  workspaceFolders :: "WorkspaceFolder list option"
  getConfiguration :: "Uri option \<Rightarrow> WorkspaceConfiguration option"

text \<open>
  Everything the module imports and that is not defined in it: Node's \<^verbatim>\<open>path\<close>,
  \<^verbatim>\<open>fs.existsSync\<close>, the package \<^verbatim>\<open>untildify\<close>, the helpers of
  \<^verbatim>\<open>./constants\<close>, \<^verbatim>\<open>./utils/platform\<close> and
  \<^verbatim>\<open>./platform/platformService\<close>, and two JavaScript built-ins whose behaviour
  on ill-typed operands is not spelled out here (\<open>coerceGreaterZero\<close> is
  \<^verbatim>\<open>v > 0\<close> for a \<open>v\<close> that is a string, an array or an object).
  \<^verbatim>\<open>isWindows()\<close> and \<^verbatim>\<open>getOSType()\<close> are two imports and stay two
  fields. The theorems hold for every such platform; concrete ones are defined further
  down.
\<close>

record env =
  isTestExecution :: bool
  isWindows :: bool
  getOSType :: OSType
  sep :: char
  path_join :: "string list \<Rightarrow> string"
  path_basename :: "string \<Rightarrow> string"
  path_dirname :: "string \<Rightarrow> string"
  path_isAbsolute :: "string \<Rightarrow> bool"
  path_resolve :: "string \<Rightarrow> string \<Rightarrow> string"
  dirname_of_module :: string
  untildify :: "jsval \<Rightarrow> exn + string"
  existsSync :: "string \<Rightarrow> exn + bool"
  DEFAULT_INTERPRETER_SETTING :: string
  resolveString :: "string option \<Rightarrow> IWorkspaceService \<Rightarrow> string \<Rightarrow> string"
  coerceGreaterZero :: "jsval \<Rightarrow> bool"
  Object_assign :: "jsval \<Rightarrow> jsval \<Rightarrow> exn + jsval"
  newWorkspaceService :: IWorkspaceService

section \<open>Resolving an interpreter path\<close>

text \<open>\<^verbatim>\<open>String.prototype.toLowerCase\<close> on the ASCII letters.\<close>

definition lowerChar :: "char \<Rightarrow> char" where
  "lowerChar c =
     (if 65 \<le> (of_char c :: nat) \<and> (of_char c :: nat) \<le> 90
      then char_of (of_char c + 32 :: nat) else c)"

definition toLowerCase :: "string \<Rightarrow> string" where
  "toLowerCase s = map lowerChar s"

definition startsWith :: "string \<Rightarrow> string \<Rightarrow> bool" where
  "startsWith s p = (take (length p) s = p)"

text \<open>
  \<^verbatim>\<open>isValidPythonPath\<close>: \<^verbatim>\<open>&&\<close> evaluates the probe first and the name check
  only when the probe returned true. A probe that throws ends the call.
\<close>

definition isValidPythonPath :: "env \<Rightarrow> string \<Rightarrow> exn + bool" where
  "isValidPythonPath e pythonPath =
     (case existsSync e pythonPath of
        Inl ex \<Rightarrow> Inl ex
      | Inr False \<Rightarrow> Inr False
      | Inr True \<Rightarrow>
          Inr (startsWith
                 (path_basename e
                    (if getOSType e = Windows then toLowerCase pythonPath else pythonPath))
                 ''python''))"

definition KnownPythonExecutables :: "string list" where
  "KnownPythonExecutables =
     [''python'', ''python4'', ''python3.6'', ''python3.5'', ''python3'',
      ''python2.7'', ''python2'', ''python3.7'', ''python3.8'', ''python3.9'']"

text \<open>The \<^verbatim>\<open>for\<close> loop of \<^verbatim>\<open>getPythonExecutable\<close> over the names still to try.\<close>

fun probeExecutables :: "env \<Rightarrow> string \<Rightarrow> string list \<Rightarrow> exn + string" where
  "probeExecutables e pythonPath [] = Inr pythonPath"
| "probeExecutables e pythonPath (executableName # rest) =
     (if isWindows e then
        (case isValidPythonPath e (path_join e [pythonPath, executableName @ ''.exe'']) of
           Inl ex \<Rightarrow> Inl ex
         | Inr True \<Rightarrow> Inr (path_join e [pythonPath, executableName @ ''.exe''])
         | Inr False \<Rightarrow>
            (case isValidPythonPath e
                    (path_join e [pythonPath, ''Scripts'', executableName @ ''.exe'']) of
               Inl ex \<Rightarrow> Inl ex
             | Inr True \<Rightarrow>
                 Inr (path_join e [pythonPath, ''Scripts'', executableName @ ''.exe''])
             | Inr False \<Rightarrow> probeExecutables e pythonPath rest))
      else
        (case isValidPythonPath e (path_join e [pythonPath, executableName]) of
           Inl ex \<Rightarrow> Inl ex
         | Inr True \<Rightarrow> Inr (path_join e [pythonPath, executableName])
         | Inr False \<Rightarrow>
            (case isValidPythonPath e (path_join e [pythonPath, ''bin'', executableName]) of
               Inl ex \<Rightarrow> Inl ex
             | Inr True \<Rightarrow> Inr (path_join e [pythonPath, ''bin'', executableName])
             | Inr False \<Rightarrow> probeExecutables e pythonPath rest)))"

definition getPythonExecutable :: "env \<Rightarrow> jsval \<Rightarrow> exn + string" where
  "getPythonExecutable e value =
     (case untildify e value of
        Inl ex \<Rightarrow> Inl ex
      | Inr pythonPath \<Rightarrow>
          if pythonPath = ''python''
             \<or> sep e \<notin> set pythonPath
             \<or> path_basename e pythonPath = path_dirname e pythonPath
          then Inr pythonPath
          else
            (case isValidPythonPath e pythonPath of
               Inl ex \<Rightarrow> Inl ex
             | Inr True \<Rightarrow> Inr pythonPath
             | Inr False \<Rightarrow> probeExecutables e pythonPath KnownPythonExecutables))"

text \<open>
  \<^verbatim>\<open>getAbsolutePath\<close>. \<^verbatim>\<open>!rootDir\<close> holds for \<^verbatim>\<open>undefined\<close> and for the
  empty string.
\<close>

definition getAbsolutePath :: "env \<Rightarrow> jsval \<Rightarrow> string option \<Rightarrow> exn + string" where
  "getAbsolutePath e value rootDir =
     (let rootDir' = (case rootDir of
                        None \<Rightarrow> dirname_of_module e
                      | Some r \<Rightarrow> if r = [] then dirname_of_module e else r)
      in case untildify e value of
           Inl ex \<Rightarrow> Inl ex
         | Inr pathToCheck \<Rightarrow>
             if isTestExecution e \<and> pathToCheck = [] then Inr rootDir'
             else if sep e \<notin> set pathToCheck then Inr pathToCheck
             else if path_isAbsolute e pathToCheck then Inr pathToCheck
             else Inr (path_resolve e rootDir' pathToCheck))"

section \<open>The settings of one scope\<close>

text \<open>
  Modelled from the spec: \<^verbatim>\<open>SystemVariables.resolveAny\<close> lives in
  \<^verbatim>\<open>./variables/systemVariables\<close>, which is not among the sources. The
  specification's resolver takes a string, an array or a plain object, substitutes
  placeholders in the strings, passes every other leaf through unchanged and returns
  an absent input as absent. The substitution on one string is the platform's
  \<open>resolveString\<close>, for the workspace root and the workspace service the
  resolver was built with.
\<close>

fun resolveAny :: "(string \<Rightarrow> string) \<Rightarrow> jsval \<Rightarrow> jsval" where
  "resolveAny rs (JStr s) = JStr (rs s)"
| "resolveAny rs (JArr xs) = JArr (map (resolveAny rs) xs)"
| "resolveAny rs (JObj kvs) = JObj (map (map_prod id (resolveAny rs)) kvs)"
| "resolveAny rs JUndefined = JUndefined"
| "resolveAny rs JNull = JNull"
| "resolveAny rs (JBool b) = JBool b"
| "resolveAny rs (JNum n) = JNum n"

datatype Subscription =
    OnDidChangeWorkspaceFolders
  | OnDidChangeConfiguration
  | OnDidChangeInterpreterPath

text \<open>
  The instance fields of \<^verbatim>\<open>PythonSettings\<close>. The private fields
  \<^verbatim>\<open>_pythonPath\<close> and \<^verbatim>\<open>_defaultInterpreterPath\<close> are
  \<open>priv_pythonPath\<close> and \<open>priv_defaultInterpreterPath\<close>. A disposable is
  the subscription it ends.
\<close>

record PythonSettings =
  envFile :: jsval
  venvPath :: jsval
  venvFolders :: jsval
  activeStateToolPath :: jsval
  condaPath :: jsval
  pipenvPath :: jsval
  poetryPath :: jsval
  devOptions :: jsval
  terminal :: jsval
  disableInstallationChecks :: bool
  globalModuleInstallation :: bool
  autoUpdateLanguageServer :: jsval
  languageServerIsDefault :: bool
  workspaceRoot :: "Uri option"
  disposables :: "Subscription list"
  priv_pythonPath :: jsval
  priv_defaultInterpreterPath :: jsval
  workspace :: IWorkspaceService
  interpreterPathService :: "(Uri option \<Rightarrow> jsval) option"

text \<open>
  A statement of a method: it returns the exception it threw, if any, and the
  instance as the statement left it.
\<close>

type_synonym step = "PythonSettings \<Rightarrow> exn option \<times> PythonSettings"

fun runSteps :: "step list \<Rightarrow> step" where
  "runSteps [] this = (None, this)"
| "runSteps (st # sts) this =
     (case st this of
        (Some ex, this') \<Rightarrow> (Some ex, this')
      | (None, this') \<Rightarrow> runSteps sts this')"

text \<open>The two setters: \<^verbatim>\<open>try { ... } catch (ex) { ... }\<close> around the resolution.\<close>

definition set_pythonPath :: "env \<Rightarrow> jsval \<Rightarrow> step" where
  "set_pythonPath e value this =
     (if strictEquals (priv_pythonPath this) value then (None, this)
      else
        (case getPythonExecutable e value of
           Inr p \<Rightarrow> (None, this\<lparr>priv_pythonPath := JStr p\<rparr>)
         | Inl ex \<Rightarrow> (None, this\<lparr>priv_pythonPath := value\<rparr>)))"

definition set_defaultInterpreterPath :: "env \<Rightarrow> jsval \<Rightarrow> step" where
  "set_defaultInterpreterPath e value this =
     (if strictEquals (priv_defaultInterpreterPath this) value then (None, this)
      else
        (case getPythonExecutable e value of
           Inr p \<Rightarrow> (None, this\<lparr>priv_defaultInterpreterPath := JStr p\<rparr>)
         | Inl ex \<Rightarrow> (None, this\<lparr>priv_defaultInterpreterPath := value\<rparr>)))"

text \<open>
  \<^verbatim>\<open>getPythonPath\<close>: the constant \<^verbatim>\<open>inExperimentDeprecatePythonPath\<close> is
  \<^verbatim>\<open>true\<close>, so the choice rests on the service alone.
\<close>

definition getPythonPath ::
  "env \<Rightarrow> WorkspaceConfiguration \<Rightarrow> (jsval \<Rightarrow> jsval) \<Rightarrow> string option
     \<Rightarrow> PythonSettings \<Rightarrow> (exn + string) \<times> PythonSettings" where
  "getPythonPath e config systemVariables root this =
     (case set_pythonPath e
             (systemVariables
                (case interpreterPathService this of
                   Some service \<Rightarrow> service (workspaceRoot this)
                 | None \<Rightarrow> config ''pythonPath''))
             this of
        (Some ex, this') \<Rightarrow> (Inl ex, this')
      | (None, this') \<Rightarrow> (getAbsolutePath e (priv_pythonPath this') root, this'))"

text \<open>\<^verbatim>\<open>x.length > 0\<close>, for an \<open>x\<close> that is truthy.\<close>

fun lengthGreaterZero :: "env \<Rightarrow> jsval \<Rightarrow> bool" where
  "lengthGreaterZero e (JStr s) = (s \<noteq> [])"
| "lengthGreaterZero e (JArr xs) = (xs \<noteq> [])"
| "lengthGreaterZero e (JObj kvs) =
     (case map_of kvs ''length'' of
        None \<Rightarrow> False
      | Some JUndefined \<Rightarrow> False
      | Some JNull \<Rightarrow> False
      | Some (JBool b) \<Rightarrow> b
      | Some (JNum n) \<Rightarrow> 0 < n
      | Some v \<Rightarrow> coerceGreaterZero e v)"
| "lengthGreaterZero e v = False"

text \<open>
  The pattern of the four tool paths:
  \<^verbatim>\<open>x && x.length > 0 ? getAbsolutePath(x, workspaceRoot) : x\<close>.
\<close>

definition toolPath :: "env \<Rightarrow> jsval \<Rightarrow> string option \<Rightarrow> exn + jsval" where
  "toolPath e x root =
     (if truthy x \<and> lengthGreaterZero e x
      then (case getAbsolutePath e x root of Inl ex \<Rightarrow> Inl ex | Inr p \<Rightarrow> Inr (JStr p))
      else Inr x)"

text \<open>\<^verbatim>\<open>pythonSettings.get(key, defaultValue)\<close>.\<close>

definition getOrDefault :: "WorkspaceConfiguration \<Rightarrow> string \<Rightarrow> jsval \<Rightarrow> jsval" where
  "getOrDefault config key defaultValue =
     (if config key = JUndefined then defaultValue else config key)"

text \<open>
  The statements of \<^verbatim>\<open>update\<close>, in the order of the source. Each takes the
  configuration (the parameter \<^verbatim>\<open>pythonSettings\<close> of the method, here
  \<open>config\<close>), the resolver \<^verbatim>\<open>systemVariables.resolveAny\<close> and the path of
  the workspace root as far as it reads them.
\<close>

definition update_pythonPath ::
  "env \<Rightarrow> WorkspaceConfiguration \<Rightarrow> (jsval \<Rightarrow> jsval) \<Rightarrow> string option \<Rightarrow> step" where
  "update_pythonPath e config systemVariables root this =
     (case getPythonPath e config systemVariables root this of
        (Inl ex, this') \<Rightarrow> (Some ex, this')
      | (Inr p, this') \<Rightarrow> set_pythonPath e (JStr p) this')"

definition update_defaultInterpreterPath ::
  "env \<Rightarrow> WorkspaceConfiguration \<Rightarrow> (jsval \<Rightarrow> jsval) \<Rightarrow> step" where
  "update_defaultInterpreterPath e config systemVariables this =
     (let defaultInterpreterPath = systemVariables (config ''defaultInterpreterPath'')
      in set_defaultInterpreterPath e
           (if truthy defaultInterpreterPath then defaultInterpreterPath
            else JStr (DEFAULT_INTERPRETER_SETTING e))
           this)"

definition update_venvPath :: "WorkspaceConfiguration \<Rightarrow> (jsval \<Rightarrow> jsval) \<Rightarrow> step" where
  "update_venvPath config systemVariables this =
     (None, this\<lparr>venvPath := systemVariables (config ''venvPath'')\<rparr>)"

definition update_venvFolders :: "WorkspaceConfiguration \<Rightarrow> (jsval \<Rightarrow> jsval) \<Rightarrow> step" where
  "update_venvFolders config systemVariables this =
     (None, this\<lparr>venvFolders := systemVariables (config ''venvFolders'')\<rparr>)"

definition update_activeStateToolPath ::
  "env \<Rightarrow> WorkspaceConfiguration \<Rightarrow> (jsval \<Rightarrow> jsval) \<Rightarrow> string option \<Rightarrow> step" where
  "update_activeStateToolPath e config systemVariables root this =
     (case toolPath e (systemVariables (config ''activeStateToolPath'')) root of
        Inl ex \<Rightarrow> (Some ex, this)
      | Inr v \<Rightarrow> (None, this\<lparr>activeStateToolPath := v\<rparr>))"

definition update_condaPath ::
  "env \<Rightarrow> WorkspaceConfiguration \<Rightarrow> (jsval \<Rightarrow> jsval) \<Rightarrow> string option \<Rightarrow> step" where
  "update_condaPath e config systemVariables root this =
     (case toolPath e (systemVariables (config ''condaPath'')) root of
        Inl ex \<Rightarrow> (Some ex, this)
      | Inr v \<Rightarrow> (None, this\<lparr>condaPath := v\<rparr>))"

definition update_pipenvPath ::
  "env \<Rightarrow> WorkspaceConfiguration \<Rightarrow> (jsval \<Rightarrow> jsval) \<Rightarrow> string option \<Rightarrow> step" where
  "update_pipenvPath e config systemVariables root this =
     (case toolPath e (systemVariables (config ''pipenvPath'')) root of
        Inl ex \<Rightarrow> (Some ex, this)
      | Inr v \<Rightarrow> (None, this\<lparr>pipenvPath := v\<rparr>))"

definition update_poetryPath ::
  "env \<Rightarrow> WorkspaceConfiguration \<Rightarrow> (jsval \<Rightarrow> jsval) \<Rightarrow> string option \<Rightarrow> step" where
  "update_poetryPath e config systemVariables root this =
     (case toolPath e (systemVariables (config ''poetryPath'')) root of
        Inl ex \<Rightarrow> (Some ex, this)
      | Inr v \<Rightarrow> (None, this\<lparr>poetryPath := v\<rparr>))"

definition update_autoUpdateLanguageServer ::
  "WorkspaceConfiguration \<Rightarrow> (jsval \<Rightarrow> jsval) \<Rightarrow> step" where
  "update_autoUpdateLanguageServer config systemVariables this =
     (None, this\<lparr>autoUpdateLanguageServer :=
               systemVariables (getOrDefault config ''autoUpdateLanguageServer'' (JBool True))\<rparr>)"

definition update_envFile :: "WorkspaceConfiguration \<Rightarrow> (jsval \<Rightarrow> jsval) \<Rightarrow> step" where
  "update_envFile config systemVariables this =
     (None, this\<lparr>envFile := systemVariables (config ''envFile'')\<rparr>)"

definition update_devOptions :: "WorkspaceConfiguration \<Rightarrow> (jsval \<Rightarrow> jsval) \<Rightarrow> step" where
  "update_devOptions config systemVariables this =
     (let this1 = this\<lparr>devOptions := systemVariables (config ''devOptions'')\<rparr>
      in (None, this1\<lparr>devOptions :=
                  (if isArray (devOptions this1) then devOptions this1 else JArr [])\<rparr>))"

definition update_installationFlags :: "WorkspaceConfiguration \<Rightarrow> step" where
  "update_installationFlags config this =
     (None, this\<lparr>disableInstallationChecks :=
                    (config ''disableInstallationCheck'' = JBool True),
                  globalModuleInstallation :=
                    (config ''globalModuleInstallation'' = JBool True)\<rparr>)"

definition update_terminal ::
  "env \<Rightarrow> WorkspaceConfiguration \<Rightarrow> (jsval \<Rightarrow> jsval) \<Rightarrow> step" where
  "update_terminal e config systemVariables this =
     (let terminalSettings = systemVariables (config ''terminal'')
      in if truthy (terminal this)
         then (case Object_assign e (terminal this) terminalSettings of
                 Inl ex \<Rightarrow> (Some ex, this)
               | Inr merged \<Rightarrow> (None, this\<lparr>terminal := merged\<rparr>))
         else (None, this\<lparr>terminal :=
                 (if isTestExecution e \<and> \<not> truthy terminalSettings
                  then JObj [] else terminalSettings)\<rparr>))"

text \<open>
  \<^verbatim>\<open>new SystemVariables(undefined, workspaceRoot, this.workspace)\<close>, as its
  \<^verbatim>\<open>resolveAny\<close>.
\<close>

definition systemVariablesFor :: "env \<Rightarrow> PythonSettings \<Rightarrow> jsval \<Rightarrow> jsval" where
  "systemVariablesFor e this =
     resolveAny (resolveString e (map_option fsPath (workspaceRoot this)) (workspace this))"

text \<open>\<^verbatim>\<open>update\<close>: a statement that throws ends it.\<close>

definition update :: "env \<Rightarrow> WorkspaceConfiguration \<Rightarrow> step" where
  "update e config this =
     (let root = map_option fsPath (workspaceRoot this);
          systemVariables = systemVariablesFor e this
      in runSteps
           [update_pythonPath e config systemVariables root,
            update_defaultInterpreterPath e config systemVariables,
            update_venvPath config systemVariables,
            update_venvFolders config systemVariables,
            update_activeStateToolPath e config systemVariables root,
            update_condaPath e config systemVariables root,
            update_pipenvPath e config systemVariables root,
            update_poetryPath e config systemVariables root,
            update_autoUpdateLanguageServer config systemVariables,
            update_envFile config systemVariables,
            update_devOptions config systemVariables,
            update_installationFlags config,
            update_terminal e config systemVariables]
           this)"

text \<open>
  \<^verbatim>\<open>initialize\<close>: the subscriptions, then the first \<^verbatim>\<open>update\<close> when a
  configuration is there.
\<close>

definition initialize :: "env \<Rightarrow> step" where
  "initialize e this =
     (let this1 = this\<lparr>disposables := disposables this @ [OnDidChangeWorkspaceFolders]\<rparr>;
          this2 = this1\<lparr>disposables := disposables this1 @ [OnDidChangeConfiguration]\<rparr>;
          this3 = (if interpreterPathService this2 \<noteq> None
                   then this2\<lparr>disposables := disposables this2 @ [OnDidChangeInterpreterPath]\<rparr>
                   else this2)
      in case getConfiguration (workspace this3) (workspaceRoot this3) of
           None \<Rightarrow> (None, this3)
         | Some initialConfig \<Rightarrow> update e initialConfig this3)"

text \<open>The field initialisers and the constructor.\<close>

definition initialFields ::
  "Uri option \<Rightarrow> IWorkspaceService \<Rightarrow> (Uri option \<Rightarrow> jsval) option \<Rightarrow> PythonSettings" where
  "initialFields workspaceFolder workspaceService service =
     \<lparr>envFile = JStr [], venvPath = JStr [], venvFolders = JArr [],
      activeStateToolPath = JStr [], condaPath = JStr [], pipenvPath = JStr [],
      poetryPath = JStr [], devOptions = JArr [], terminal = JUndefined,
      disableInstallationChecks = False, globalModuleInstallation = False,
      autoUpdateLanguageServer = JBool True, languageServerIsDefault = True,
      workspaceRoot = workspaceFolder, disposables = [],
      priv_pythonPath = JStr ''python'', priv_defaultInterpreterPath = JStr [],
      workspace = workspaceService, interpreterPathService = service\<rparr>"

definition newPythonSettings ::
  "env \<Rightarrow> Uri option \<Rightarrow> IWorkspaceService option \<Rightarrow> (Uri option \<Rightarrow> jsval) option
     \<Rightarrow> exn option \<times> PythonSettings" where
  "newPythonSettings e workspaceFolder workspaceArg service =
     initialize e
       (initialFields workspaceFolder
          (case workspaceArg of Some w \<Rightarrow> w | None \<Rightarrow> newWorkspaceService e)
          service)"

text \<open>The instance method \<^verbatim>\<open>dispose\<close> returns the subscriptions it ended.\<close>

definition dispose_instance :: "PythonSettings \<Rightarrow> Subscription list \<times> PythonSettings" where
  "dispose_instance this = (disposables this, this\<lparr>disposables := []\<rparr>)"

section \<open>The registry of settings\<close>

text \<open>
  The static \<^verbatim>\<open>Map<string, PythonSettings>\<close> keeps its entries in insertion
  order: \<^verbatim>\<open>has\<close> and \<^verbatim>\<open>get\<close> are \<open>map_of\<close>, \<^verbatim>\<open>set\<close> is
  \<open>AList.update\<close> (it overwrites in place or appends), \<^verbatim>\<open>delete\<close> is
  \<open>AList.delete\<close>. The map holds references; the instances live in a heap, so
  that two results can be the same object or two equal ones. \<open>released\<close> records
  the subscriptions that were ended, with the instance that held them.
\<close>

record world =
  pythonSettings :: "(string \<times> nat) list"
  heap :: "nat \<Rightarrow> PythonSettings"
  nextRef :: nat
  released :: "(nat \<times> Subscription) list"

datatype ConfigurationTarget = TargetGlobal | TargetWorkspace | TargetWorkspaceFolder

definition getSettingsUriAndTarget ::
  "env \<Rightarrow> Uri option \<Rightarrow> IWorkspaceService option \<Rightarrow> Uri option \<times> ConfigurationTarget" where
  "getSettingsUriAndTarget e resource workspaceArg =
     (let workspace = (case workspaceArg of Some w \<Rightarrow> w | None \<Rightarrow> newWorkspaceService e);
          workspaceFolder = (case resource of
                               Some r \<Rightarrow> getWorkspaceFolder workspace r
                             | None \<Rightarrow> None);
          workspaceFolderUri =
            (case workspaceFolder of
               Some folder \<Rightarrow> Some (uri folder)
             | None \<Rightarrow>
                 (case workspaceFolders workspace of
                    Some (first # others) \<Rightarrow> Some (uri first)
                  | Some [] \<Rightarrow> None
                  | None \<Rightarrow> None))
      in (workspaceFolderUri,
          if workspaceFolderUri \<noteq> None then TargetWorkspaceFolder else TargetGlobal))"

text \<open>The first three lines of \<^verbatim>\<open>getInstance\<close>: the scope and its key.\<close>

definition workspaceFolderUriOf ::
  "env \<Rightarrow> Uri option \<Rightarrow> IWorkspaceService option \<Rightarrow> Uri option" where
  "workspaceFolderUriOf e resource workspaceArg =
     fst (getSettingsUriAndTarget e resource
            (Some (case workspaceArg of Some w \<Rightarrow> w | None \<Rightarrow> newWorkspaceService e)))"

definition workspaceFolderKeyOf ::
  "env \<Rightarrow> Uri option \<Rightarrow> IWorkspaceService option \<Rightarrow> string" where
  "workspaceFolderKeyOf e resource workspaceArg =
     (case workspaceFolderUriOf e resource workspaceArg of
        Some u \<Rightarrow> fsPath u
      | None \<Rightarrow> [])"

text \<open>
  \<^verbatim>\<open>getInstance\<close>. A constructor that throws leaves nothing behind that can be
  reached. The result is \<^verbatim>\<open>pythonSettings.get(key)\<close>, as the source returns it.
\<close>

definition getInstance ::
  "env \<Rightarrow> Uri option \<Rightarrow> IWorkspaceService option \<Rightarrow> (Uri option \<Rightarrow> jsval) option
     \<Rightarrow> world \<Rightarrow> (exn + nat option) \<times> world" where
  "getInstance e resource workspaceArg service w =
     (let workspace = (case workspaceArg of Some ws \<Rightarrow> ws | None \<Rightarrow> newWorkspaceService e);
          workspaceFolderUri = workspaceFolderUriOf e resource workspaceArg;
          workspaceFolderKey = workspaceFolderKeyOf e resource workspaceArg
      in if map_of (pythonSettings w) workspaceFolderKey = None
         then
           (case newPythonSettings e workspaceFolderUri (Some workspace) service of
              (Some ex, this) \<Rightarrow> (Inl ex, w)
            | (None, this) \<Rightarrow>
                (let settings = nextRef w;
                     w' = w\<lparr>pythonSettings :=
                              AList.update workspaceFolderKey settings (pythonSettings w),
                            heap := (heap w)(settings := this),
                            nextRef := Suc settings\<rparr>
                 in (Inr (map_of (pythonSettings w') workspaceFolderKey), w')))
         else (Inr (map_of (pythonSettings w) workspaceFolderKey), w))"

text \<open>A sequence of calls of \<^verbatim>\<open>getInstance\<close>, each with its own arguments.\<close>

type_synonym getInstanceArgs =
  "Uri option \<times> IWorkspaceService option \<times> (Uri option \<Rightarrow> jsval) option"

fun getInstances ::
  "env \<Rightarrow> getInstanceArgs list \<Rightarrow> world \<Rightarrow> (exn + nat option) list \<times> world" where
  "getInstances e [] w = ([], w)"
| "getInstances e ((resource, workspaceArg, service) # calls) w =
     (case getInstance e resource workspaceArg service w of
        (result, w') \<Rightarrow>
          (case getInstances e calls w' of
             (results, w'') \<Rightarrow> (result # results, w'')))"

text \<open>The static \<^verbatim>\<open>dispose\<close>: \<^verbatim>\<open>forEach\<close> over the entries, then \<^verbatim>\<open>clear\<close>.\<close>

definition disposeItem :: "nat \<Rightarrow> world \<Rightarrow> world" where
  "disposeItem item w =
     (case dispose_instance (heap w item) of
        (ended, this') \<Rightarrow>
          w\<lparr>heap := (heap w)(item := this'),
            released := released w @ map (Pair item) ended\<rparr>)"

definition dispose :: "env \<Rightarrow> world \<Rightarrow> exn option \<times> world" where
  "dispose e w =
     (if \<not> isTestExecution e
      then (Some (Error ''Dispose can only be called from unit tests''), w)
      else (None, (fold disposeItem (map snd (pythonSettings w)) w)\<lparr>pythonSettings := []\<rparr>))"

text \<open>
  \<^verbatim>\<open>onWorkspaceFoldersChanged\<close>, run by the instance \<open>this\<close>;
  \<open>workspace this\<close> is what its workspace service reports when the handler
  runs. \<^verbatim>\<open>workspaceFolders!.map\<close> on \<^verbatim>\<open>undefined\<close> is a
  \<^verbatim>\<open>TypeError\<close>.
\<close>

definition onWorkspaceFoldersChanged :: "PythonSettings \<Rightarrow> world \<Rightarrow> exn option \<times> world" where
  "onWorkspaceFoldersChanged this w =
     (case workspaceFolders (workspace this) of
        None \<Rightarrow> (Some (TypeError ''workspaceFolders is undefined''), w)
      | Some folders \<Rightarrow>
          (let workspaceKeys = map (\<lambda>workspaceFolder. fsPath (uri workspaceFolder)) folders;
               activatedWkspcKeys = map fst (pythonSettings w);
               activatedWkspcFoldersRemoved =
                 filter (\<lambda>item. item \<notin> set workspaceKeys) activatedWkspcKeys
           in if activatedWkspcFoldersRemoved \<noteq> []
              then (None, w\<lparr>pythonSettings :=
                              fold AList.delete activatedWkspcFoldersRemoved (pythonSettings w)\<rparr>)
              else (None, w)))"

section \<open>A POSIX platform\<close>

text \<open>
  Node's \<^verbatim>\<open>path.posix\<close> and the package \<^verbatim>\<open>untildify\<close>, to run the
  definitions above on concrete inputs. \<^verbatim>\<open>normalizeString\<close> keeps a stack of
  segments: an empty segment or \<^verbatim>\<open>.\<close> is dropped, \<^verbatim>\<open>..\<close> removes the
  segment before it, or stays when the path is relative and nothing is left to remove.
\<close>

fun splitSlash :: "string \<Rightarrow> string list" where
  "splitSlash [] = [[]]"
| "splitSlash (c # cs) =
     (if c = CHR ''/'' then [] # splitSlash cs
      else (case splitSlash cs of
              [] \<Rightarrow> [[c]]
            | seg # segs \<Rightarrow> (c # seg) # segs))"

fun joinSlash :: "string list \<Rightarrow> string" where
  "joinSlash [] = []"
| "joinSlash [seg] = seg"
| "joinSlash (seg # segs) = seg @ ''/'' @ joinSlash segs"

fun normalizeStep :: "bool \<Rightarrow> string \<Rightarrow> string list \<Rightarrow> string list" where
  "normalizeStep allowAboveRoot seg stack =
     (if seg = [] \<or> seg = ''.'' then stack
      else if seg = ''..'' then
        (case stack of
           [] \<Rightarrow> if allowAboveRoot then [''..''] else []
         | lastSeg # below \<Rightarrow>
             if lastSeg = ''..'' then (if allowAboveRoot then ''..'' # stack else stack)
             else below)
      else seg # stack)"

definition normalizeString :: "string \<Rightarrow> bool \<Rightarrow> string" where
  "normalizeString p allowAboveRoot =
     joinSlash (rev (fold (normalizeStep allowAboveRoot) (splitSlash p) []))"

definition posix_isAbsolute :: "string \<Rightarrow> bool" where
  "posix_isAbsolute p = (case p of [] \<Rightarrow> False | c # cs \<Rightarrow> c = CHR ''/'')"

definition posix_normalize :: "string \<Rightarrow> string" where
  "posix_normalize p =
     (if p = [] then ''.''
      else
        (let isAbsolute = posix_isAbsolute p;
             trailingSeparator = (last p = CHR ''/'');
             body = normalizeString p (\<not> isAbsolute)
         in if body = [] then
              (if isAbsolute then ''/'' else if trailingSeparator then ''./'' else ''.'')
            else (if isAbsolute then ''/'' else []) @ body
                 @ (if trailingSeparator then ''/'' else [])))"

definition posix_join :: "string list \<Rightarrow> string" where
  "posix_join args =
     (let parts = filter (\<lambda>arg. arg \<noteq> []) args
      in if parts = [] then ''.'' else posix_normalize (joinSlash parts))"

definition posix_basename :: "string \<Rightarrow> string" where
  "posix_basename p =
     rev (takeWhile (\<lambda>c. c \<noteq> CHR ''/'') (dropWhile (\<lambda>c. c = CHR ''/'') (rev p)))"

definition posix_dirname :: "string \<Rightarrow> string" where
  "posix_dirname p =
     (if p = [] then ''.''
      else
        (let hasRoot = posix_isAbsolute p;
             rest = dropWhile (\<lambda>c. c \<noteq> CHR ''/'')
                      (dropWhile (\<lambda>c. c = CHR ''/'') (rev (tl p)))
         in if rest = [] then (if hasRoot then ''/'' else ''.'')
            else if hasRoot \<and> length rest = 1 then ''//''
            else take (length rest) p))"

text \<open>
  \<^verbatim>\<open>path.resolve(rootDir, p)\<close>: the arguments from the right, then the working
  directory, until the path is absolute.
\<close>

fun resolveFrom :: "string list \<Rightarrow> string \<Rightarrow> string" where
  "resolveFrom [] resolved = resolved"
| "resolveFrom (p # ps) resolved =
     (if p = [] then resolveFrom ps resolved
      else if posix_isAbsolute p then p @ ''/'' @ resolved
      else resolveFrom ps (p @ ''/'' @ resolved))"

definition posix_resolve :: "string \<Rightarrow> string \<Rightarrow> string \<Rightarrow> string" where
  "posix_resolve cwd rootDir p =
     (let resolvedPath = resolveFrom [p, rootDir, cwd] [];
          resolvedAbsolute = posix_isAbsolute resolvedPath;
          body = normalizeString resolvedPath (\<not> resolvedAbsolute)
      in if resolvedAbsolute then ''/'' @ body
         else if body = [] then ''.'' else body)"

text \<open>
  \<^verbatim>\<open>untildify\<close> throws on a value that is not a string and replaces a leading
  \<^verbatim>\<open>~\<close> that ends the string or stands before a slash or a backslash by the
  home directory, when one is known (a home directory without \<^verbatim>\<open>$\<close>, which
  \<^verbatim>\<open>String.prototype.replace\<close> would read as a pattern).
\<close>

definition tildePrefixed :: "string \<Rightarrow> bool" where
  "tildePrefixed p =
     (case p of
        [] \<Rightarrow> False
      | c # cs \<Rightarrow> c = CHR ''~''
                 \<and> (case cs of [] \<Rightarrow> True | d # ds \<Rightarrow> d = CHR ''/'' \<or> d = CHR 0x5C))"

definition untildifyWith :: "string \<Rightarrow> jsval \<Rightarrow> exn + string" where
  "untildifyWith homeDirectory value =
     (case value of
        JStr p \<Rightarrow>
          Inr (if homeDirectory \<noteq> [] \<and> tildePrefixed p then homeDirectory @ tl p else p)
      | _ \<Rightarrow> Inl (TypeError ''Expected a string''))"

text \<open>
  \<^verbatim>\<open>Object.assign\<close> for a plain object as target and a plain object or a
  primitive without own properties as source; other operands do not occur in the
  runs below and leave the target as it is.
\<close>

definition assignObject :: "jsval \<Rightarrow> jsval \<Rightarrow> exn + jsval" where
  "assignObject target source =
     (case (target, source) of
        (JObj tkvs, JObj skvs) \<Rightarrow> Inr (JObj (fold (\<lambda>(k, v). AList.update k v) skvs tkvs))
      | _ \<Rightarrow> Inr target)"

text \<open>
  The platform with the files \<open>files\<close>, the home directory \<open>home\<close> and a
  probe \<open>probe\<close> (\<open>existingFile files\<close> for a file system that answers).
  Strings have no placeholders to substitute, and no run below compares a string, an
  array or an object with zero.
\<close>

definition existingFile :: "string list \<Rightarrow> string \<Rightarrow> exn + bool" where
  "existingFile files p = Inr (p \<in> set files)"

definition noWorkspace :: IWorkspaceService where
  "noWorkspace =
     \<lparr>getWorkspaceFolder = (\<lambda>resource. None), workspaceFolders = None,
      getConfiguration = (\<lambda>resource. None)\<rparr>"

definition posixPlatform :: "bool \<Rightarrow> string \<Rightarrow> (string \<Rightarrow> exn + bool) \<Rightarrow> env" where
  "posixPlatform test home probe =
     \<lparr>isTestExecution = test, isWindows = False, getOSType = Linux, sep = CHR ''/'',
      path_join = posix_join, path_basename = posix_basename, path_dirname = posix_dirname,
      path_isAbsolute = posix_isAbsolute, path_resolve = posix_resolve ''/'',
      dirname_of_module = ''/ext/out/client/common'',
      untildify = untildifyWith home, existsSync = probe,
      DEFAULT_INTERPRETER_SETTING = ''python'',
      resolveString = (\<lambda>root workspaceService s. s), coerceGreaterZero = (\<lambda>v. False),
      Object_assign = assignObject, newWorkspaceService = noWorkspace\<rparr>"

section \<open>The probe order, as a list\<close>

text \<open>
  What the loop of \<^verbatim>\<open>getPythonExecutable\<close> probes for a directory, in order: for
  each known name the two layouts of the platform, before the next name.
\<close>

definition layoutsOf :: "env \<Rightarrow> string \<Rightarrow> string \<Rightarrow> string list" where
  "layoutsOf e dir executableName =
     (if isWindows e
      then [path_join e [dir, executableName @ ''.exe''],
            path_join e [dir, ''Scripts'', executableName @ ''.exe'']]
      else [path_join e [dir, executableName],
            path_join e [dir, ''bin'', executableName]])"

definition candidatePaths :: "env \<Rightarrow> string \<Rightarrow> string list" where
  "candidatePaths e dir = concat (map (layoutsOf e dir) KnownPythonExecutables)"

definition firstValid :: "env \<Rightarrow> string list \<Rightarrow> string option" where
  "firstValid e candidates = find (\<lambda>c. isValidPythonPath e c = Inr True) candidates"

text \<open>
  The order the specification gives: the unqualified name, then \<^verbatim>\<open>3\<close>,
  \<^verbatim>\<open>3.6\<close> to \<^verbatim>\<open>3.9\<close>, then \<^verbatim>\<open>2\<close> and \<^verbatim>\<open>2.7\<close>.
\<close>

definition specifiedExecutables :: "string list" where
  "specifiedExecutables =
     [''python'', ''python3'', ''python3.6'', ''python3.7'', ''python3.8'', ''python3.9'',
      ''python2'', ''python2.7'']"

definition specifiedCandidatePaths :: "env \<Rightarrow> string \<Rightarrow> string list" where
  "specifiedCandidatePaths e dir = concat (map (layoutsOf e dir) specifiedExecutables)"

section \<open>Example platforms\<close>

text \<open>
  A virtual environment at \<^verbatim>\<open>/opt/env\<close> whose only interpreter is
  \<^verbatim>\<open>bin/python3.8\<close>; one that holds \<^verbatim>\<open>python3\<close> and
  \<^verbatim>\<open>python3.6\<close> side by side; an environment directory under the home
  directory with no interpreter in it; and a file system whose probe throws.
\<close>

definition venvWithPython38 :: env where
  "venvWithPython38 =
     posixPlatform False ''/home/u''
       (existingFile [''/opt/env'', ''/opt/env/bin'', ''/opt/env/bin/python3.8''])"

definition venvWithTwoPythons :: env where
  "venvWithTwoPythons =
     posixPlatform False ''/home/u''
       (existingFile [''/opt/env'', ''/opt/env/python3'', ''/opt/env/python3.6''])"

definition emptyVenvAtHome :: env where
  "emptyVenvAtHome =
     posixPlatform False ''/home/u'' (existingFile [''/home/u'', ''/home/u/venv''])"

definition failingProbe :: env where
  "failingProbe = posixPlatform False ''/home/u'' (\<lambda>p. Inl (Error ''EIO''))"

definition underTest :: env where
  "underTest = posixPlatform True ''/home/u'' (existingFile [])"

definition interpreterAtUsrBin :: env where
  "interpreterAtUsrBin =
     posixPlatform False ''/home/u'' (existingFile [''/usr/bin/python3'', ''/proj''])"

text \<open>
  A configuration with ill-typed values: strings where the schema has two lists and
  a boolean.
\<close>

definition illTypedConfig :: WorkspaceConfiguration where
  "illTypedConfig =
     (\<lambda>key. JUndefined)
       (''pythonPath'' := JStr ''python'',
        ''venvFolders'' := JStr ''envs'',
        ''devOptions'' := JStr ''debug'',
        ''disableInstallationCheck'' := JStr ''true'',
        ''globalModuleInstallation'' := JBool True)"

text \<open>
  A configuration whose two flags \<^verbatim>\<open>autoUpdateLanguageServer\<close> and
  \<^verbatim>\<open>disableInstallationCheck\<close> are both the string \<^verbatim>\<open>"true"\<close>.
\<close>

definition stringFlagsConfig :: WorkspaceConfiguration where
  "stringFlagsConfig =
     (\<lambda>key. JUndefined)
       (''pythonPath'' := JStr ''python'',
        ''autoUpdateLanguageServer'' := JStr ''true'',
        ''disableInstallationCheck'' := JStr ''true'')"

text \<open>
  A workspace with the single folder \<^verbatim>\<open>/proj\<close>, and the registry after three
  calls of \<^verbatim>\<open>getInstance\<close>: for a file of the folder, for no resource with no
  workspace open, and for another file of the folder.
\<close>

definition projFolder :: WorkspaceFolder where
  "projFolder = \<lparr>uri = Uri ''file'' ''/proj'', name = ''proj''\<rparr>"

definition projWorkspace :: IWorkspaceService where
  "projWorkspace =
     \<lparr>getWorkspaceFolder =
        (\<lambda>resource. if startsWith (fsPath resource) ''/proj/'' then Some projFolder else None),
      workspaceFolders = Some [projFolder],
      getConfiguration =
        (\<lambda>resource. Some ((\<lambda>key. JUndefined)(''pythonPath'' := JStr ''python'')))\<rparr>"

definition emptyWorld :: world where
  "emptyWorld =
     \<lparr>pythonSettings = [], heap = (\<lambda>r. initialFields None noWorkspace None),
      nextRef = 0, released = []\<rparr>"

definition threeCalls :: "getInstanceArgs list" where
  "threeCalls =
     [(Some (Uri ''file'' ''/proj/a.py''), Some projWorkspace, None),
      (None, Some noWorkspace, None),
      (Some (Uri ''file'' ''/proj/b.py''), Some projWorkspace, None)]"

definition twoScopes :: world where
  "twoScopes = snd (getInstances underTest threeCalls emptyWorld)"

section \<open>Notions used in the statements\<close>

text \<open>The scope key \<^verbatim>\<open>getInstance\<close> computes for the arguments of a call.\<close>

definition callKey :: "env \<Rightarrow> getInstanceArgs \<Rightarrow> string" where
  "callKey e call =
     (case call of (resource, workspaceArg, service) \<Rightarrow>
        workspaceFolderKeyOf e resource workspaceArg)"

text \<open>
  A registry in good shape: no key twice, no instance under two keys, and every
  reference it holds was allocated.
\<close>

definition registryInvariant :: "world \<Rightarrow> bool" where
  "registryInvariant w =
     (distinct (map fst (pythonSettings w))
      \<and> distinct (map snd (pythonSettings w))
      \<and> list_all (\<lambda>entry. snd entry < nextRef w) (pythonSettings w))"

section \<open>Properties of the path resolution\<close>

lemma isValidPythonPath_cases:
  "existsSync e c = Inr b \<Longrightarrow>
     isValidPythonPath e c = Inr True \<or> isValidPythonPath e c = Inr False"
  by (simp add: isValidPythonPath_def split: bool.splits)

lemma isValidPythonPath_missing:
  "existsSync e c = Inr False \<Longrightarrow> isValidPythonPath e c = Inr False"
  by (simp add: isValidPythonPath_def)

lemma layoutsOf_two: "\<exists>a b. layoutsOf e dir n = [a, b]"
  by (simp add: layoutsOf_def)

text \<open>One turn of the loop, on either platform family.\<close>

lemma probeExecutables_step:
  assumes lay: "layoutsOf e dir n = [a, b]"
    and a: "isValidPythonPath e a = Inr True \<or> isValidPythonPath e a = Inr False"
    and b: "isValidPythonPath e b = Inr True \<or> isValidPythonPath e b = Inr False"
  shows "probeExecutables e dir (n # names) =
           (if isValidPythonPath e a = Inr True then Inr a
            else if isValidPythonPath e b = Inr True then Inr b
            else probeExecutables e dir names)"
proof (cases "isWindows e")
  case True
  with lay have "a = path_join e [dir, n @ ''.exe'']"
    "b = path_join e [dir, ''Scripts'', n @ ''.exe'']"
    by (simp_all add: layoutsOf_def)
  with True a b show ?thesis by auto
next
  case False
  with lay have "a = path_join e [dir, n]" "b = path_join e [dir, ''bin'', n]"
    by (simp_all add: layoutsOf_def)
  with False a b show ?thesis by auto
qed

lemma probeExecutables_find:
  assumes "\<forall>c \<in> set (concat (map (layoutsOf e dir) names)). \<exists>b. existsSync e c = Inr b"
  shows "probeExecutables e dir names =
           Inr (case firstValid e (concat (map (layoutsOf e dir) names)) of
                  Some c \<Rightarrow> c | None \<Rightarrow> dir)"
  using assms
proof (induction names)
  case Nil
  then show ?case by (simp add: firstValid_def)
next
  case (Cons n names)
  obtain a b where lay: "layoutsOf e dir n = [a, b]"
    using layoutsOf_two by blast
  have "\<exists>x. existsSync e a = Inr x" "\<exists>x. existsSync e b = Inr x"
    using Cons.prems lay by simp_all
  then have a: "isValidPythonPath e a = Inr True \<or> isValidPythonPath e a = Inr False"
    and b: "isValidPythonPath e b = Inr True \<or> isValidPythonPath e b = Inr False"
    using isValidPythonPath_cases by blast+
  have rest: "probeExecutables e dir names =
           Inr (case firstValid e (concat (map (layoutsOf e dir) names)) of
                  Some c \<Rightarrow> c | None \<Rightarrow> dir)"
    using Cons by simp
  show ?case
    unfolding probeExecutables_step [OF lay a b]
    using a b rest by (auto simp: firstValid_def lay)
qed

lemma probeExecutables_none:
  assumes "\<forall>c \<in> set (concat (map (layoutsOf e dir) names)). existsSync e c = Inr False"
  shows "probeExecutables e dir names = Inr dir"
proof -
  have "\<forall>c \<in> set (concat (map (layoutsOf e dir) names)). \<exists>b. existsSync e c = Inr b"
    using assms by blast
  moreover have "firstValid e (concat (map (layoutsOf e dir) names)) = None"
    unfolding firstValid_def find_None_iff
    using assms isValidPythonPath_missing by fastforce
  ultimately show ?thesis
    using probeExecutables_find [of e dir names] by simp
qed

lemma getPythonExecutable_none:
  assumes "untildify e value = Inr dir"
    and "\<exists>b. existsSync e dir = Inr b"
    and "\<forall>c \<in> set (candidatePaths e dir). existsSync e c = Inr False"
  shows "getPythonExecutable e value = Inr dir"
proof -
  have "isValidPythonPath e dir = Inr True \<or> isValidPythonPath e dir = Inr False"
    using assms(2) isValidPythonPath_cases by blast
  moreover have "probeExecutables e dir KnownPythonExecutables = Inr dir"
    using assms(3) probeExecutables_none unfolding candidatePaths_def by blast
  ultimately show ?thesis
    using assms(1) by (auto simp: getPythonExecutable_def)
qed

text \<open>
  Claim C2, as the code has it. When tilde expansion yields \<open>dir\<close>, \<open>dir\<close>
  is neither a bare name nor a usable interpreter by itself and the file system
  answers every probe, \<^verbatim>\<open>getPythonExecutable\<close> returns the first path of
  \<open>candidatePaths\<close> that exists and whose basename starts with
  \<^verbatim>\<open>python\<close>, and \<open>dir\<close> when there is none. The names are tried in the order
  \<^verbatim>\<open>python\<close>, \<^verbatim>\<open>python4\<close>, \<^verbatim>\<open>python3.6\<close>, \<^verbatim>\<open>python3.5\<close>,
  \<^verbatim>\<open>python3\<close>, \<^verbatim>\<open>python2.7\<close>, \<^verbatim>\<open>python2\<close>, \<^verbatim>\<open>python3.7\<close>,
  \<^verbatim>\<open>python3.8\<close>, \<^verbatim>\<open>python3.9\<close>, each at \<^verbatim>\<open><dir>/<name>\<close> and then
  \<^verbatim>\<open><dir>/bin/<name>\<close> (on Windows \<^verbatim>\<open><dir>/<name>.exe\<close> and then
  \<^verbatim>\<open><dir>/Scripts/<name>.exe\<close>) before the next name.
\<close>

theorem getPythonExecutable_probe_order:
  assumes "untildify e value = Inr dir"
    and "dir \<noteq> ''python''" and "sep e \<in> set dir"
    and "path_basename e dir \<noteq> path_dirname e dir"
    and "isValidPythonPath e dir = Inr False"
    and "\<forall>c \<in> set (candidatePaths e dir). \<exists>b. existsSync e c = Inr b"
  shows "getPythonExecutable e value =
           Inr (case firstValid e (candidatePaths e dir) of Some c \<Rightarrow> c | None \<Rightarrow> dir)
         \<and> candidatePaths e dir =
             concat (map (\<lambda>n. if isWindows e
                               then [path_join e [dir, n @ ''.exe''],
                                     path_join e [dir, ''Scripts'', n @ ''.exe'']]
                               else [path_join e [dir, n], path_join e [dir, ''bin'', n]])
                       [''python'', ''python4'', ''python3.6'', ''python3.5'', ''python3'',
                        ''python2.7'', ''python2'', ''python3.7'', ''python3.8'',
                        ''python3.9''])"
proof
  show "getPythonExecutable e value =
          Inr (case firstValid e (candidatePaths e dir) of Some c \<Rightarrow> c | None \<Rightarrow> dir)"
    using assms probeExecutables_find [of e dir KnownPythonExecutables]
    by (simp add: getPythonExecutable_def candidatePaths_def)
next
  show "candidatePaths e dir =
          concat (map (\<lambda>n. if isWindows e
                            then [path_join e [dir, n @ ''.exe''],
                                  path_join e [dir, ''Scripts'', n @ ''.exe'']]
                            else [path_join e [dir, n], path_join e [dir, ''bin'', n]])
                    [''python'', ''python4'', ''python3.6'', ''python3.5'', ''python3'',
                     ''python2.7'', ''python2'', ''python3.7'', ''python3.8'',
                     ''python3.9''])"
    by (simp add: candidatePaths_def layoutsOf_def KnownPythonExecutables_def)
qed

text \<open>
  The specification's own example: \<^verbatim>\<open>/opt/env/bin/python3.8\<close> is the only
  interpreter under \<^verbatim>\<open>/opt/env\<close>.
\<close>

theorem getPythonExecutable_probe_order_witness:
  "getPythonExecutable venvWithPython38 (JStr ''/opt/env'') = Inr ''/opt/env/bin/python3.8''"
proof -
  have 1: "untildify venvWithPython38 (JStr ''/opt/env'') = Inr ''/opt/env''"
    by code_simp
  have 2: "''/opt/env'' \<noteq> ''python''" by simp
  have 3: "sep venvWithPython38 \<in> set ''/opt/env''" by code_simp
  have 4: "path_basename venvWithPython38 ''/opt/env''
             \<noteq> path_dirname venvWithPython38 ''/opt/env''"
    by code_simp
  have 5: "isValidPythonPath venvWithPython38 ''/opt/env'' = Inr False" by code_simp
  have 6: "\<forall>c \<in> set (candidatePaths venvWithPython38 ''/opt/env'').
             \<exists>b. existsSync venvWithPython38 c = Inr b"
    by (simp add: venvWithPython38_def posixPlatform_def existingFile_def)
  have 7: "(case firstValid venvWithPython38 (candidatePaths venvWithPython38 ''/opt/env'') of
              Some c \<Rightarrow> c | None \<Rightarrow> ''/opt/env'') = ''/opt/env/bin/python3.8''"
    by code_simp
  show ?thesis
    using getPythonExecutable_probe_order [OF 1 2 3 4 5 6] 7 by simp
qed

text \<open>
  Claim C2 as stated fails: with \<^verbatim>\<open>python3\<close> and \<^verbatim>\<open>python3.6\<close> both in
  the directory, the specified order reaches \<^verbatim>\<open>python3\<close> first and the code
  returns \<^verbatim>\<open>python3.6\<close>.
\<close>

theorem getPythonExecutable_order_counterexample:
  "getPythonExecutable venvWithTwoPythons (JStr ''/opt/env'') = Inr ''/opt/env/python3.6''
   \<and> firstValid venvWithTwoPythons (specifiedCandidatePaths venvWithTwoPythons ''/opt/env'')
       = Some ''/opt/env/python3''"
  by code_simp

text \<open>
  Claim C5, as the code has it. For a candidate whose tilde expansion is \<open>dir\<close>,
  when the file system answers for \<open>dir\<close> and none of the probed paths exists,
  \<^verbatim>\<open>getPythonExecutable\<close> returns \<open>dir\<close>, the tilde-expanded candidate (the
  candidate itself when expansion does not change it); and when expansion leaves
  \<open>dir\<close> unchanged, running the function on its own output returns \<open>dir\<close>
  again.
\<close>

theorem getPythonExecutable_no_executable:
  assumes "untildify e (JStr p) = Inr dir"
    and "untildify e (JStr dir) = Inr dir"
    and "\<exists>b. existsSync e dir = Inr b"
    and "\<forall>c \<in> set (candidatePaths e dir). existsSync e c = Inr False"
  shows "getPythonExecutable e (JStr p) = Inr dir
         \<and> getPythonExecutable e (JStr dir) = Inr dir"
  using assms getPythonExecutable_none by blast

theorem getPythonExecutable_no_executable_witness:
  "getPythonExecutable emptyVenvAtHome (JStr ''/home/u/venv'') = Inr ''/home/u/venv''
   \<and> getPythonExecutable emptyVenvAtHome (JStr ''~/venv'') = Inr ''/home/u/venv''"
proof -
  have 1: "untildify emptyVenvAtHome (JStr ''~/venv'') = Inr ''/home/u/venv''" by code_simp
  have 2: "untildify emptyVenvAtHome (JStr ''/home/u/venv'') = Inr ''/home/u/venv''"
    by code_simp
  have 3: "\<exists>b. existsSync emptyVenvAtHome ''/home/u/venv'' = Inr b"
    by (auto simp: emptyVenvAtHome_def posixPlatform_def existingFile_def)
  have 4: "\<forall>c \<in> set (candidatePaths emptyVenvAtHome ''/home/u/venv'').
             existsSync emptyVenvAtHome c = Inr False"
    by code_simp
  show ?thesis
    using getPythonExecutable_no_executable [OF 1 2 3 4] by simp
qed

text \<open>
  Claim C5 as stated fails: the candidate \<^verbatim>\<open>~/venv\<close> holds no interpreter and is
  not returned unchanged, but tilde-expanded.
\<close>

theorem getPythonExecutable_unchanged_counterexample:
  "getPythonExecutable emptyVenvAtHome (JStr ''~/venv'') \<noteq> Inr ''~/venv''"
  by code_simp

text \<open>
  Claim C6, as the code has it. A string without a path separator that tilde expansion
  leaves unchanged, and that is not the empty string under test execution, is returned
  unchanged by \<^verbatim>\<open>getAbsolutePath\<close>, whatever the root directory.
\<close>

theorem getAbsolutePath_bare_name:
  assumes "untildify e (JStr p) = Inr p"
    and "sep e \<notin> set p"
    and "\<not> (isTestExecution e \<and> p = [])"
  shows "getAbsolutePath e (JStr p) rootDir = Inr p"
  using assms by (auto simp: getAbsolutePath_def Let_def)

theorem getAbsolutePath_bare_name_witness:
  "getAbsolutePath underTest (JStr ''python3'') (Some ''/proj'') = Inr ''python3''"
proof -
  have 1: "untildify underTest (JStr ''python3'') = Inr ''python3''" by code_simp
  have 2: "sep underTest \<notin> set ''python3''" by code_simp
  have 3: "\<not> (isTestExecution underTest \<and> ''python3'' = [])" by simp
  show ?thesis
    using getAbsolutePath_bare_name [OF 1 2 3] .
qed

text \<open>
  Claim C6 as stated fails twice. The empty string has no separator; under test
  execution the result is the root directory, so it depends on that argument. The
  string \<^verbatim>\<open>~\<close> has no separator and comes back as the home directory.
\<close>

theorem getAbsolutePath_bare_name_counterexample:
  "getAbsolutePath underTest (JStr []) (Some ''/proj'') = Inr ''/proj''
   \<and> getAbsolutePath underTest (JStr []) (Some ''/other'') = Inr ''/other''
   \<and> getAbsolutePath emptyVenvAtHome (JStr ''~'') (Some ''/proj'') = Inr ''/home/u''"
  by code_simp

section \<open>Properties of the setters\<close>

lemma strictEquals_eq: "strictEquals u v \<Longrightarrow> u = v"
  by (cases u) simp_all

text \<open>
  Claim C8. Neither setter throws, whatever the resolution does; and when
  \<^verbatim>\<open>getPythonExecutable\<close> throws on the value (the probe threw, or a step before
  it), the field holds the unresolved value afterwards.
\<close>

theorem setters_catch:
  "fst (set_pythonPath e value this) = None
   \<and> fst (set_defaultInterpreterPath e value this) = None
   \<and> (getPythonExecutable e value = Inl ex \<longrightarrow>
        priv_pythonPath (snd (set_pythonPath e value this)) = value
        \<and> priv_defaultInterpreterPath (snd (set_defaultInterpreterPath e value this)) = value)"
  by (auto simp: set_pythonPath_def set_defaultInterpreterPath_def
           dest: strictEquals_eq split: sum.splits)

text \<open>A probe that throws on \<^verbatim>\<open>/opt/env\<close>: both fields take the directory as given.\<close>

theorem setters_catch_witness:
  "getPythonExecutable failingProbe (JStr ''/opt/env'') = Inl (Error ''EIO'')
   \<and> set_pythonPath failingProbe (JStr ''/opt/env'') (initialFields None noWorkspace None)
       = (None, (initialFields None noWorkspace None)\<lparr>priv_pythonPath := JStr ''/opt/env''\<rparr>)
   \<and> priv_defaultInterpreterPath
        (snd (set_defaultInterpreterPath failingProbe (JStr ''/opt/env'')
                (initialFields None noWorkspace None))) = JStr ''/opt/env''"
proof -
  have 1: "getPythonExecutable failingProbe (JStr ''/opt/env'') = Inl (Error ''EIO'')"
    by code_simp
  have 2: "set_pythonPath failingProbe (JStr ''/opt/env'') (initialFields None noWorkspace None)
       = (None, (initialFields None noWorkspace None)\<lparr>priv_pythonPath := JStr ''/opt/env''\<rparr>)"
    by (simp add: set_pythonPath_def 1 initialFields_def)
  show ?thesis
    using setters_catch [of failingProbe "JStr ''/opt/env''"
        "initialFields None noWorkspace None" "Error ''EIO''"] 1 2
    by simp
qed

section \<open>Properties of \<^verbatim>\<open>update\<close>\<close>

text \<open>
  A run of statements that completes went through every statement; what a statement
  sets, and what the later ones leave alone, gives the fields after \<^verbatim>\<open>update\<close>.
\<close>

lemma runSteps_ConsE:
  assumes "runSteps (st # sts) s = (None, s'')"
  obtains s' where "st s = (None, s')" and "runSteps sts s' = (None, s'')"
  using assms by (auto split: prod.splits option.splits)

lemma update_terminal_frame:
  "update_terminal e config sv this = (None, this') \<Longrightarrow>
     venvFolders this' = venvFolders this \<and> devOptions this' = devOptions this
     \<and> autoUpdateLanguageServer this' = autoUpdateLanguageServer this
     \<and> disableInstallationChecks this' = disableInstallationChecks this
     \<and> globalModuleInstallation this' = globalModuleInstallation this"
  by (auto simp: update_terminal_def Let_def split: sum.splits if_splits)

lemma update_installationFlags_sets:
  "update_installationFlags config this = (None, this') \<Longrightarrow>
     venvFolders this' = venvFolders this \<and> devOptions this' = devOptions this
     \<and> autoUpdateLanguageServer this' = autoUpdateLanguageServer this
     \<and> disableInstallationChecks this' = (config ''disableInstallationCheck'' = JBool True)
     \<and> globalModuleInstallation this' = (config ''globalModuleInstallation'' = JBool True)"
  by (auto simp: update_installationFlags_def)

lemma update_devOptions_sets:
  "update_devOptions config sv this = (None, this') \<Longrightarrow>
     venvFolders this' = venvFolders this
     \<and> autoUpdateLanguageServer this' = autoUpdateLanguageServer this
     \<and> devOptions this' = (if isArray (sv (config ''devOptions'')) then sv (config ''devOptions'') else JArr [])"
  by (auto simp: update_devOptions_def Let_def)

lemma update_envFile_frame:
  "update_envFile config sv this = (None, this') \<Longrightarrow>
     venvFolders this' = venvFolders this
     \<and> autoUpdateLanguageServer this' = autoUpdateLanguageServer this"
  by (auto simp: update_envFile_def)

lemma update_autoUpdateLanguageServer_sets:
  "update_autoUpdateLanguageServer config sv this = (None, this') \<Longrightarrow>
     venvFolders this' = venvFolders this
     \<and> autoUpdateLanguageServer this' =
          sv (getOrDefault config ''autoUpdateLanguageServer'' (JBool True))"
  by (auto simp: update_autoUpdateLanguageServer_def)

lemma update_toolPaths_frame:
  "update_activeStateToolPath e config sv root this = (None, this') \<Longrightarrow>
     venvFolders this' = venvFolders this"
  "update_condaPath e config sv root this = (None, this') \<Longrightarrow>
     venvFolders this' = venvFolders this"
  "update_pipenvPath e config sv root this = (None, this') \<Longrightarrow>
     venvFolders this' = venvFolders this"
  "update_poetryPath e config sv root this = (None, this') \<Longrightarrow>
     venvFolders this' = venvFolders this"
  by (auto simp: update_activeStateToolPath_def update_condaPath_def update_pipenvPath_def
        update_poetryPath_def split: sum.splits)

lemma update_venvFolders_sets:
  "update_venvFolders config sv this = (None, this') \<Longrightarrow>
     venvFolders this' = sv (config ''venvFolders'')"
  by (auto simp: update_venvFolders_def)

lemma update_completed:
  assumes "update e config this = (None, this')"
  shows "venvFolders this' =
           systemVariablesFor e this
             (config ''venvFolders'')"
    and "autoUpdateLanguageServer this' =
           systemVariablesFor e this
             (getOrDefault config ''autoUpdateLanguageServer'' (JBool True))"
    and "devOptions this' =
           (if isArray (systemVariablesFor e this
                          (config ''devOptions''))
            then systemVariablesFor e this
                   (config ''devOptions'')
            else JArr [])"
    and "disableInstallationChecks this' = (config ''disableInstallationCheck'' = JBool True)"
    and "globalModuleInstallation this' = (config ''globalModuleInstallation'' = JBool True)"
proof -
  let ?sv = "systemVariablesFor e this"
  let ?root = "map_option fsPath (workspaceRoot this)"
  from assms obtain s1 s2 s3 s4 s5 s6 s7 s8 s9 s10 s11 s12 where
    "update_venvFolders config ?sv s3 = (None, s4)"
    "update_activeStateToolPath e config ?sv ?root s4 = (None, s5)"
    "update_condaPath e config ?sv ?root s5 = (None, s6)"
    "update_pipenvPath e config ?sv ?root s6 = (None, s7)"
    "update_poetryPath e config ?sv ?root s7 = (None, s8)"
    "update_autoUpdateLanguageServer config ?sv s8 = (None, s9)"
    "update_envFile config ?sv s9 = (None, s10)"
    "update_devOptions config ?sv s10 = (None, s11)"
    "update_installationFlags config s11 = (None, s12)"
    "update_terminal e config ?sv s12 = (None, this')"
    unfolding update_def Let_def
    by (elim runSteps_ConsE) auto
  note steps = this
  note facts = update_venvFolders_sets [OF steps(1)] update_toolPaths_frame(1) [OF steps(2)]
    update_toolPaths_frame(2) [OF steps(3)] update_toolPaths_frame(3) [OF steps(4)]
    update_toolPaths_frame(4) [OF steps(5)] update_autoUpdateLanguageServer_sets [OF steps(6)]
    update_envFile_frame [OF steps(7)] update_devOptions_sets [OF steps(8)]
    update_installationFlags_sets [OF steps(9)] update_terminal_frame [OF steps(10)]
  show "venvFolders this' = ?sv (config ''venvFolders'')" using facts by simp
  show "autoUpdateLanguageServer this' = ?sv (getOrDefault config ''autoUpdateLanguageServer'' (JBool True))"
    using facts by simp
  show "devOptions this' = (if isArray (?sv (config ''devOptions'')) then ?sv (config ''devOptions'') else JArr [])"
    using facts by simp
  show "disableInstallationChecks this' = (config ''disableInstallationCheck'' = JBool True)"
    using facts by simp
  show "globalModuleInstallation this' = (config ''globalModuleInstallation'' = JBool True)"
    using facts by simp
qed


text \<open>The ill-typed configuration does not stop \<^verbatim>\<open>update\<close>.\<close>

lemma illTyped_run:
  "fst (update interpreterAtUsrBin illTypedConfig (initialFields None noWorkspace None)) = None"
  by code_simp

text \<open>
  What holds of the flags after an \<^verbatim>\<open>update\<close> that runs to its end:
  \<^verbatim>\<open>disableInstallationChecks\<close> and \<^verbatim>\<open>globalModuleInstallation\<close> are true
  exactly when the raw value is the boolean \<^verbatim>\<open>true\<close>, so every other raw value,
  the string \<^verbatim>\<open>"true"\<close> among them, gives false. The auto-update flag is the
  resolved raw value, with \<^verbatim>\<open>true\<close> for an unset one: it is \<^verbatim>\<open>true\<close> when
  the raw value is unset or the boolean \<^verbatim>\<open>true\<close>, and it is never compared with
  \<^verbatim>\<open>true\<close>.
\<close>

lemma update_boolean_flags:
  assumes "update e config this = (None, this')"
  shows "disableInstallationChecks this' = (config ''disableInstallationCheck'' = JBool True)
       \<and> globalModuleInstallation this' = (config ''globalModuleInstallation'' = JBool True)
       \<and> (config ''autoUpdateLanguageServer'' = JUndefined \<longrightarrow>
            autoUpdateLanguageServer this' = JBool True)
       \<and> (config ''autoUpdateLanguageServer'' = JBool True \<longrightarrow>
            autoUpdateLanguageServer this' = JBool True)"
  using update_completed(2,4,5) [OF assms]
  by (simp add: getOrDefault_def systemVariablesFor_def)

text \<open>
  A run on the ill-typed configuration: the string \<^verbatim>\<open>"true"\<close> gives false, the
  boolean gives true and the unset auto-update flag is true.
\<close>

lemma update_boolean_flags_example:
  "fst (update interpreterAtUsrBin illTypedConfig (initialFields None noWorkspace None)) = None
   \<and> \<not> disableInstallationChecks
          (snd (update interpreterAtUsrBin illTypedConfig (initialFields None noWorkspace None)))
   \<and> globalModuleInstallation
          (snd (update interpreterAtUsrBin illTypedConfig (initialFields None noWorkspace None)))
   \<and> autoUpdateLanguageServer
          (snd (update interpreterAtUsrBin illTypedConfig (initialFields None noWorkspace None)))
        = JBool True"
proof -
  let ?this = "initialFields None noWorkspace None"
  have run: "update interpreterAtUsrBin illTypedConfig ?this
               = (None, snd (update interpreterAtUsrBin illTypedConfig ?this))"
    using illTyped_run by (metis prod.collapse)
  show ?thesis
    using update_boolean_flags [OF run] illTyped_run
    by (simp add: illTypedConfig_def)
qed

lemma update_autoUpdateLanguageServer_stored:
  assumes "update e config this = (None, this')"
  shows "autoUpdateLanguageServer this' =
           systemVariablesFor e this
             (getOrDefault config ''autoUpdateLanguageServer'' (JBool True))"
  using update_completed(2) [OF assms] .

text \<open>
  Claim C3 holds for \<^verbatim>\<open>disableInstallationChecks\<close> and
  \<^verbatim>\<open>globalModuleInstallation\<close>, and for the auto-update flag when the raw value
  is unset or the boolean \<^verbatim>\<open>true\<close>. It does not hold for a non-boolean raw value
  of the auto-update flag, for which the comparison \<^verbatim>\<open>=== true\<close> of the two
  sibling flags is missing: with the string \<^verbatim>\<open>"true"\<close> as raw value of both
  \<^verbatim>\<open>autoUpdateLanguageServer\<close> and \<^verbatim>\<open>disableInstallationCheck\<close>,
  \<^verbatim>\<open>update\<close> runs to its end, \<^verbatim>\<open>disableInstallationChecks\<close> is false
  and \<^verbatim>\<open>autoUpdateLanguageServer\<close>, a field declared \<^verbatim>\<open>boolean\<close>, holds
  the string.
\<close>

theorem update_autoUpdateLanguageServer_not_normalized:
  "fst (update interpreterAtUsrBin stringFlagsConfig (initialFields None noWorkspace None)) = None
   \<and> autoUpdateLanguageServer
        (snd (update interpreterAtUsrBin stringFlagsConfig (initialFields None noWorkspace None)))
       = JStr ''true''
   \<and> disableInstallationChecks
        (snd (update interpreterAtUsrBin stringFlagsConfig (initialFields None noWorkspace None)))
       = False"
  by code_simp

text \<open>What \<^verbatim>\<open>update\<close> stores in the two list-valued fields, for every configuration.\<close>

lemma update_list_fields:
  assumes "update e config this = (None, this')"
  shows "isArray (devOptions this')"
    and "\<not> isArray (config ''devOptions'') \<Longrightarrow> devOptions this' = JArr []"
    and "venvFolders this' =
           systemVariablesFor e this
             (config ''venvFolders'')"
proof -
  have shape: "isArray (systemVariablesFor e this v) = isArray v" for v
    by (cases v) (simp_all add: systemVariablesFor_def)
  show "isArray (devOptions this')"
    using update_completed(3) [OF assms] by simp
  show "devOptions this' = JArr []" if "\<not> isArray (config ''devOptions'')"
    using update_completed(3) [OF assms] that shape by simp
  show "venvFolders this' =
          systemVariablesFor e this
            (config ''venvFolders'')"
    using update_completed(1) [OF assms] .
qed

text \<open>
  Claim C4 holds for \<^verbatim>\<open>devOptions\<close> and not for \<^verbatim>\<open>venvFolders\<close>, for which
  the check \<^verbatim>\<open>Array.isArray\<close> of the line after \<^verbatim>\<open>devOptions\<close> is missing:
  with the string \<^verbatim>\<open>"envs"\<close> as raw \<^verbatim>\<open>venvFolders\<close> and the string
  \<^verbatim>\<open>"debug"\<close> as raw \<^verbatim>\<open>devOptions\<close>, \<^verbatim>\<open>update\<close> runs to its end,
  stores the empty array in \<^verbatim>\<open>devOptions\<close> and the string in
  \<^verbatim>\<open>venvFolders\<close>, a field declared \<^verbatim>\<open>string[]\<close>.
\<close>

theorem update_venvFolders_not_coerced:
  "fst (update interpreterAtUsrBin illTypedConfig (initialFields None noWorkspace None)) = None
   \<and> venvFolders
        (snd (update interpreterAtUsrBin illTypedConfig (initialFields None noWorkspace None)))
       = JStr ''envs''
   \<and> devOptions
        (snd (update interpreterAtUsrBin illTypedConfig (initialFields None noWorkspace None)))
       = JArr []"
  by code_simp

section \<open>Where the interpreter path comes from\<close>




section \<open>Properties of the registry\<close>

lemma getInstance_existing:
  assumes "map_of (pythonSettings w) (workspaceFolderKeyOf e resource workspaceArg) = Some r"
  shows "getInstance e resource workspaceArg service w = (Inr (Some r), w)"
  using assms by (simp add: getInstance_def Let_def)

lemma getInstance_keeps:
  assumes "getInstance e resource workspaceArg service w = (result, w')"
    and "map_of (pythonSettings w) key = Some r"
  shows "map_of (pythonSettings w') key = Some r"
  using assms
  by (auto simp: getInstance_def Let_def AList.update_conv'
           split: if_splits prod.splits option.splits)

lemma getInstance_registers:
  assumes "getInstance e resource workspaceArg service w = (Inr x, w')"
  shows "\<exists>r. x = Some r
           \<and> map_of (pythonSettings w') (workspaceFolderKeyOf e resource workspaceArg) = Some r"
  using assms
  by (auto simp: getInstance_def Let_def AList.update_conv'
           split: if_splits prod.splits option.splits)

lemma getInstances_keeps:
  assumes "getInstances e calls w = (results, w')"
    and "map_of (pythonSettings w) key = Some r"
  shows "map_of (pythonSettings w') key = Some r"
  using assms
proof (induction calls arbitrary: w results)
  case Nil
  then show ?case by simp
next
  case (Cons call calls)
  obtain resource workspaceArg service where call: "call = (resource, workspaceArg, service)"
    by (cases call) auto
  obtain result w1 where 1: "getInstance e resource workspaceArg service w = (result, w1)"
    by (cases "getInstance e resource workspaceArg service w") auto
  obtain rest where 2: "getInstances e calls w1 = (rest, w')"
    using Cons.prems(1) call 1 by (auto split: prod.splits)
  show ?case
    using Cons.IH [OF 2] getInstance_keeps [OF 1 Cons.prems(2)] by simp
qed

lemma getInstances_registered:
  assumes "getInstances e calls w = (results, w')"
    and "map_of (pythonSettings w) key = Some r"
    and "j < length calls" and "callKey e (calls ! j) = key"
  shows "results ! j = Inr (Some r)"
  using assms
proof (induction calls arbitrary: w results j)
  case Nil
  then show ?case by simp
next
  case (Cons call calls)
  obtain resource workspaceArg service where call: "call = (resource, workspaceArg, service)"
    by (cases call) auto
  obtain result w1 where 1: "getInstance e resource workspaceArg service w = (result, w1)"
    by (cases "getInstance e resource workspaceArg service w") auto
  obtain rest where 2: "getInstances e calls w1 = (rest, w')" and res: "results = result # rest"
    using Cons.prems(1) call 1 by (auto split: prod.splits)
  have kept: "map_of (pythonSettings w1) key = Some r"
    using getInstance_keeps [OF 1 Cons.prems(2)] .
  show ?case
  proof (cases j)
    case 0
    then have "workspaceFolderKeyOf e resource workspaceArg = key"
      using Cons.prems(4) call by (simp add: callKey_def)
    then have "result = Inr (Some r)"
      using getInstance_existing [of w e resource workspaceArg r service] Cons.prems(2) 1 by simp
    with 0 res show ?thesis by simp
  next
    case (Suc j')
    then show ?thesis
      using Cons.IH [OF 2 kept, of j'] Cons.prems(3,4) res by simp
  qed
qed

lemma getInstances_same_key:
  assumes "getInstances e calls w = (results, w')"
    and "i < j" and "j < length calls"
    and "callKey e (calls ! i) = callKey e (calls ! j)"
    and "results ! i = Inr (Some r)"
  shows "results ! j = Inr (Some r)"
  using assms
proof (induction calls arbitrary: w results i j)
  case Nil
  then show ?case by simp
next
  case (Cons call calls)
  obtain resource workspaceArg service where call: "call = (resource, workspaceArg, service)"
    by (cases call) auto
  obtain result w1 where 1: "getInstance e resource workspaceArg service w = (result, w1)"
    by (cases "getInstance e resource workspaceArg service w") auto
  obtain rest where 2: "getInstances e calls w1 = (rest, w')" and res: "results = result # rest"
    using Cons.prems(1) call 1 by (auto split: prod.splits)
  obtain j' where j: "j = Suc j'"
    using Cons.prems(2) by (cases j) auto
  show ?case
  proof (cases i)
    case 0
    then have "result = Inr (Some r)"
      using Cons.prems(5) res by simp
    then have "map_of (pythonSettings w1) (workspaceFolderKeyOf e resource workspaceArg) = Some r"
      using getInstance_registers [of e resource workspaceArg service w "Some r" w1] 1 by simp
    moreover have "callKey e (calls ! j') = workspaceFolderKeyOf e resource workspaceArg"
      using Cons.prems(4) 0 j call by (simp add: callKey_def)
    ultimately show ?thesis
      using getInstances_registered [OF 2, of _ r j'] Cons.prems(3) j res by simp
  next
    case (Suc i')
    then show ?thesis
      using Cons.IH [OF 2, of i' j'] Cons.prems j res by simp
  qed
qed

lemma update_new_key:
  "map_of al k = None \<Longrightarrow> AList.update k v al = al @ [(k, v)]"
  by (induction al) (auto split: if_splits)

lemma getInstance_invariant:
  assumes "getInstance e resource workspaceArg service w = (result, w')"
    and "registryInvariant w"
  shows "registryInvariant w'"
proof (cases "w' = w")
  case True
  with assms(2) show ?thesis by simp
next
  case False
  let ?key = "workspaceFolderKeyOf e resource workspaceArg"
  from False assms(1) obtain this where absent: "map_of (pythonSettings w) ?key = None"
    and w': "w' = w\<lparr>pythonSettings := AList.update ?key (nextRef w) (pythonSettings w),
                    heap := (heap w)(nextRef w := this), nextRef := Suc (nextRef w)\<rparr>"
    by (auto simp: getInstance_def Let_def split: if_splits prod.splits option.splits)
  have al: "pythonSettings w' = pythonSettings w @ [(?key, nextRef w)]"
    and nr: "nextRef w' = Suc (nextRef w)"
    using w' update_new_key [OF absent] by simp_all
  have "?key \<notin> set (map fst (pythonSettings w))"
    using absent by (simp add: map_of_eq_None_iff)
  moreover have "nextRef w \<notin> set (map snd (pythonSettings w))"
    using assms(2) by (auto simp: registryInvariant_def list_all_iff)
  moreover have "list_all (\<lambda>entry. snd entry < Suc (nextRef w)) (pythonSettings w)"
    using assms(2) by (auto simp: registryInvariant_def list_all_iff less_Suc_eq)
  ultimately show ?thesis
    using assms(2) by (simp add: registryInvariant_def al nr)
qed

lemma getInstances_invariant:
  assumes "getInstances e calls w = (results, w')"
    and "registryInvariant w"
  shows "registryInvariant w'"
  using assms
proof (induction calls arbitrary: w results)
  case Nil
  then show ?case by simp
next
  case (Cons call calls)
  obtain resource workspaceArg service where call: "call = (resource, workspaceArg, service)"
    by (cases call) auto
  obtain result w1 where 1: "getInstance e resource workspaceArg service w = (result, w1)"
    by (cases "getInstance e resource workspaceArg service w") auto
  obtain rest where 2: "getInstances e calls w1 = (rest, w')"
    using Cons.prems(1) call 1 by (auto split: prod.splits)
  show ?case
    using Cons.IH [OF 2] getInstance_invariant [OF 1 Cons.prems(2)] by simp
qed

text \<open>
  Claim C1. Through any sequence of calls of \<^verbatim>\<open>getInstance\<close>, a registry in good
  shape stays so (one entry per key, one key per instance); an entry that is in the map
  stays there with the same reference; and when a call returned an instance, every later
  call whose resource maps to the same key returns the same reference.
\<close>

theorem getInstance_one_per_key:
  assumes "getInstances e calls w = (results, w')"
  shows "(registryInvariant w \<longrightarrow> registryInvariant w')
       \<and> (\<forall>key r. map_of (pythonSettings w) key = Some r \<longrightarrow>
             map_of (pythonSettings w') key = Some r)
       \<and> (\<forall>i j r. i < j \<and> j < length calls
             \<and> callKey e (calls ! i) = callKey e (calls ! j)
             \<and> results ! i = Inr (Some r) \<longrightarrow> results ! j = Inr (Some r))"
  using getInstances_invariant [OF assms] getInstances_keeps [OF assms]
    getInstances_same_key [OF assms]
  by blast

text \<open>The first and the third of the three calls map to \<^verbatim>\<open>/proj\<close>.\<close>

theorem getInstance_one_per_key_witness:
  "fst (getInstances underTest threeCalls emptyWorld) ! 0 = Inr (Some 0)
   \<and> fst (getInstances underTest threeCalls emptyWorld) ! 2 = Inr (Some 0)
   \<and> callKey underTest (threeCalls ! 0) = ''/proj''
   \<and> callKey underTest (threeCalls ! 2) = ''/proj''
   \<and> registryInvariant (snd (getInstances underTest threeCalls emptyWorld))"
proof -
  have run: "getInstances underTest threeCalls emptyWorld
               = (fst (getInstances underTest threeCalls emptyWorld),
                  snd (getInstances underTest threeCalls emptyWorld))"
    by simp
  have 0: "fst (getInstances underTest threeCalls emptyWorld) ! 0 = Inr (Some 0)"
    by code_simp
  have k: "callKey underTest (threeCalls ! 0) = ''/proj''"
    "callKey underTest (threeCalls ! 2) = ''/proj''"
    by code_simp+
  have inv: "registryInvariant emptyWorld"
    by (simp add: registryInvariant_def emptyWorld_def)
  have len: "(2::nat) < length threeCalls"
    by (simp add: threeCalls_def)
  show ?thesis
    using getInstance_one_per_key [OF run] 0 k inv len
    by (metis zero_less_numeral)
qed

lemma fold_disposeItem:
  "pythonSettings (fold disposeItem items w) = pythonSettings w
   \<and> nextRef (fold disposeItem items w) = nextRef w
   \<and> heap (fold disposeItem items w) =
       (\<lambda>r. if r \<in> set items then (heap w r)\<lparr>disposables := []\<rparr> else heap w r)
   \<and> set (released (fold disposeItem items w)) =
       set (released w) \<union> {(r, d). r \<in> set items \<and> d \<in> set (disposables (heap w r))}"
proof (induction items arbitrary: w)
  case Nil
  then show ?case by simp
next
  case (Cons item items)
  let ?w1 = "disposeItem item w"
  have 1: "pythonSettings ?w1 = pythonSettings w" "nextRef ?w1 = nextRef w"
    "heap ?w1 = (heap w)(item := (heap w item)\<lparr>disposables := []\<rparr>)"
    "released ?w1 = released w @ map (Pair item) (disposables (heap w item))"
    by (simp_all add: disposeItem_def dispose_instance_def)
  have heap_eq: "(\<lambda>r. if r \<in> set items then (heap ?w1 r)\<lparr>disposables := []\<rparr> else heap ?w1 r)
      = (\<lambda>r. if r \<in> set (item # items) then (heap w r)\<lparr>disposables := []\<rparr> else heap w r)"
    by (auto simp: 1 fun_eq_iff)
  have rel_eq: "set (released ?w1) \<union> {(r, d). r \<in> set items \<and> d \<in> set (disposables (heap ?w1 r))}
      = set (released w) \<union> {(r, d). r \<in> set (item # items) \<and> d \<in> set (disposables (heap w r))}"
    by (auto simp: 1 split: if_splits)
  show ?case
    using Cons.IH [of ?w1] heap_eq rel_eq by (simp add: 1)
qed

text \<open>
  Claim C7. Outside test execution the static \<^verbatim>\<open>dispose\<close> throws and leaves the
  registry as it was. Under test execution it returns, the map is empty afterwards, and
  every instance that was cached has no disposables left, each of them having been
  disposed.
\<close>

theorem dispose_only_under_test:
  "(\<not> isTestExecution e \<longrightarrow>
      dispose e w = (Some (Error ''Dispose can only be called from unit tests''), w))
   \<and> (isTestExecution e \<longrightarrow>
        fst (dispose e w) = None
        \<and> pythonSettings (snd (dispose e w)) = []
        \<and> (\<forall>item \<in> set (map snd (pythonSettings w)).
              disposables (heap (snd (dispose e w)) item) = []
              \<and> (\<forall>d \<in> set (disposables (heap w item)).
                    (item, d) \<in> set (released (snd (dispose e w))))))"
proof -
  let ?items = "map snd (pythonSettings w)"
  note f = fold_disposeItem [of ?items w]
  have "disposables (heap (fold disposeItem ?items w) item) = []" if "item \<in> set ?items" for item
    using f that by simp
  moreover have "(item, d) \<in> set (released (fold disposeItem ?items w))"
    if "item \<in> set ?items" "d \<in> set (disposables (heap w item))" for item d
    using f that by blast
  ultimately show ?thesis
    by (simp add: dispose_def)
qed

theorem dispose_only_under_test_witness:
  "dispose emptyVenvAtHome twoScopes
     = (Some (Error ''Dispose can only be called from unit tests''), twoScopes)
   \<and> fst (dispose underTest twoScopes) = None
   \<and> pythonSettings (snd (dispose underTest twoScopes)) = []
   \<and> map snd (pythonSettings twoScopes) = [0, 1]
   \<and> disposables (heap twoScopes 0) = [OnDidChangeWorkspaceFolders, OnDidChangeConfiguration]
   \<and> disposables (heap (snd (dispose underTest twoScopes)) 0) = []
   \<and> (0, OnDidChangeConfiguration) \<in> set (released (snd (dispose underTest twoScopes)))"
proof -
  have 1: "\<not> isTestExecution emptyVenvAtHome" "isTestExecution underTest"
    by code_simp+
  have 2: "map snd (pythonSettings twoScopes) = [0, 1]"
    "disposables (heap twoScopes 0) = [OnDidChangeWorkspaceFolders, OnDidChangeConfiguration]"
    by code_simp+
  show ?thesis
    using dispose_only_under_test [of emptyVenvAtHome twoScopes]
      dispose_only_under_test [of underTest twoScopes] 1 2
    by simp
qed

lemma fold_delete_filter:
  "fold AList.delete ks al = filter (\<lambda>entry. fst entry \<notin> set ks) al"
proof (induction ks arbitrary: al)
  case Nil
  then show ?case by simp
next
  case (Cons k ks)
  have "AList.delete k al = filter (\<lambda>entry. fst entry \<noteq> k) al"
    by (auto simp: AList.delete_eq intro: filter_cong)
  then show ?case
    using Cons.IH [of "AList.delete k al"] by (auto intro: filter_cong)
qed

lemma removed_filter:
  "filter (\<lambda>entry. fst entry \<notin> set (filter (\<lambda>item. item \<notin> K) (map fst al))) al
     = filter (\<lambda>entry. fst entry \<in> K) al"
  by (rule filter_cong) force+

lemma map_of_filter_key:
  "map_of (filter (\<lambda>entry. fst entry \<in> K) al) key = (if key \<in> K then map_of al key else None)"
  by (induction al) auto

lemma onWorkspaceFoldersChanged_filter:
  assumes "workspaceFolders (workspace this) = Some folders"
  shows "onWorkspaceFoldersChanged this w =
           (None, w\<lparr>pythonSettings :=
                      filter (\<lambda>entry. fst entry \<in> set (map (\<lambda>f. fsPath (uri f)) folders))
                        (pythonSettings w)\<rparr>)"
proof -
  let ?K = "set (map (\<lambda>f. fsPath (uri f)) folders)"
  let ?removed = "filter (\<lambda>item. item \<notin> ?K) (map fst (pythonSettings w))"
  show ?thesis
  proof (cases "?removed = []")
    case True
    then have "\<forall>entry \<in> set (pythonSettings w). fst entry \<in> ?K"
      by (auto simp: filter_empty_conv)
    then have "filter (\<lambda>entry. fst entry \<in> ?K) (pythonSettings w) = pythonSettings w"
      by (simp add: filter_id_conv)
    with True assms show ?thesis
      by (simp add: onWorkspaceFoldersChanged_def Let_def)
  next
    case False
    with assms show ?thesis
      using removed_filter [of ?K "pythonSettings w"]
      by (simp add: onWorkspaceFoldersChanged_def Let_def fold_delete_filter)
  qed
qed

text \<open>Without a list of folders the handler throws before it touches the map.\<close>

lemma onWorkspaceFoldersChanged_undefined:
  "workspaceFolders (workspace this) = None \<Longrightarrow>
     onWorkspaceFoldersChanged this w = (Some (TypeError ''workspaceFolders is undefined''), w)"
  by (simp add: onWorkspaceFoldersChanged_def)

text \<open>
  Claim C10. When the workspace service has a list of folders, the handler returns and
  the keys left in the registry are paths of current folders: an entry whose key is not
  such a path is gone, the entry of the global scope under the empty key among them as
  the empty string is not a folder path, and an entry whose key is such a path is
  untouched.
\<close>

theorem onWorkspaceFoldersChanged_evicts:
  assumes "workspaceFolders (workspace this) = Some folders"
    and "onWorkspaceFoldersChanged this w = (result, w')"
  shows "result = None
       \<and> set (map fst (pythonSettings w')) \<subseteq> set (map (\<lambda>f. fsPath (uri f)) folders)
       \<and> (\<forall>key. key \<notin> set (map (\<lambda>f. fsPath (uri f)) folders) \<longrightarrow>
             map_of (pythonSettings w') key = None)
       \<and> (\<forall>key. key \<in> set (map (\<lambda>f. fsPath (uri f)) folders) \<longrightarrow>
             map_of (pythonSettings w') key = map_of (pythonSettings w) key)
       \<and> ([] \<notin> set (map (\<lambda>f. fsPath (uri f)) folders) \<longrightarrow>
             map_of (pythonSettings w') [] = None)"
proof -
  let ?K = "set (map (\<lambda>f. fsPath (uri f)) folders)"
  have w': "result = None"
    "pythonSettings w' = filter (\<lambda>entry. fst entry \<in> ?K) (pythonSettings w)"
    using assms onWorkspaceFoldersChanged_filter [OF assms(1), of w] by auto
  have keys: "set (map fst (pythonSettings w')) \<subseteq> ?K"
    unfolding w'(2) by auto
  have gone: "map_of (pythonSettings w') key = None" if "key \<notin> ?K" for key
    unfolding w'(2) using that by (simp only: map_of_filter_key if_False)
  have kept: "map_of (pythonSettings w') key = map_of (pythonSettings w) key"
    if "key \<in> ?K" for key
    unfolding w'(2) using that by (simp only: map_of_filter_key if_True)
  show ?thesis
    using w'(1) keys gone kept by blast
qed


theorem onWorkspaceFoldersChanged_evicts_witness:
  "map fst (pythonSettings twoScopes) = [''/proj'', []]
   \<and> fst (onWorkspaceFoldersChanged (heap twoScopes 0) twoScopes) = None
   \<and> map_of (pythonSettings (snd (onWorkspaceFoldersChanged (heap twoScopes 0) twoScopes))) []
       = None
   \<and> map_of (pythonSettings (snd (onWorkspaceFoldersChanged (heap twoScopes 0) twoScopes)))
        ''/proj'' = Some 0"
proof -
  have 1: "workspaceFolders (workspace (heap twoScopes 0)) = Some [projFolder]"
    by code_simp
  have 2: "onWorkspaceFoldersChanged (heap twoScopes 0) twoScopes
             = (fst (onWorkspaceFoldersChanged (heap twoScopes 0) twoScopes),
                snd (onWorkspaceFoldersChanged (heap twoScopes 0) twoScopes))"
    by simp
  have 3: "map fst (pythonSettings twoScopes) = [''/proj'', []]"
    "map_of (pythonSettings twoScopes) ''/proj'' = Some 0"
    by code_simp+
  have 4: "set (map (\<lambda>f. fsPath (uri f)) [projFolder]) = {''/proj''}"
    by (simp add: projFolder_def)
  show ?thesis
    using onWorkspaceFoldersChanged_evicts [OF 1 2] 3 unfolding 4
    by simp
qed


text \<open>
  The two operations that remove entries keep the registry in good shape as well.
\<close>

lemma dispose_invariant:
  "registryInvariant w \<Longrightarrow> registryInvariant (snd (dispose e w))"
  by (simp add: dispose_def registryInvariant_def)

lemma onWorkspaceFoldersChanged_invariant:
  assumes "registryInvariant w"
  shows "registryInvariant (snd (onWorkspaceFoldersChanged this w))"
proof (cases "workspaceFolders (workspace this)")
  case None
  with assms show ?thesis
    by (simp add: onWorkspaceFoldersChanged_undefined)
next
  case (Some folders)
  show ?thesis
    using assms
    unfolding onWorkspaceFoldersChanged_filter [OF Some] registryInvariant_def
    by (auto simp: distinct_map_filter list_all_iff)
qed

end
